theory Spec2Isabelle
  imports Main "HOL-Library.Multiset"
begin

section \<open>The podcast pipeline of podcast_ai.py\<close>

text \<open>
  The module is a sequence of steps around outside collaborators: the feed parser, the
  random source, the clock, the speech service, the object store and the feed writer.
  Each collaborator is a field of a record \<open>world\<close> that says what its calls return in one
  run, an exception being the value \<open>Inl e\<close>. The module's own \<open>try\<close>/\<open>except\<close> blocks are
  case distinctions on those values. Python strings are lists of characters, \<open>None\<close> is
  the \<open>None\<close> of an option type, and the module-level list \<open>podcast_episodes\<close> is passed
  in and returned.
\<close>

subsection \<open>Data\<close>

datatype exn = Exception string | HTTPException nat string

record topic =
  title :: string
  link :: string
  summary :: string
  source :: string

text \<open>A feed entry as the parser hands it over: reading a missing \<open>title\<close> or \<open>link\<close>
  attribute raises, a missing summary is replaced by \<open>entry.get\<close>'s default.\<close>

record entry =
  entry_title :: "string option"
  entry_link :: "string option"
  entry_summary :: "string option"

record guest =
  name :: string
  style :: string
  intro :: string

text \<open>The four \<open>random.choice\<close> calls of one conversation, each the index drawn or an
  exception of the random source.\<close>

record draws =
  guest_draw :: "exn + nat"
  host_intro_draw :: "exn + nat"
  host_response_draw :: "exn + nat"
  sector_draw :: "exn + nat"

record episode =
  podcast_text :: string
  audio_file :: string
  audio_url :: string
  timestamp :: string
  created_at :: string

text \<open>\<open>PodcastResponse\<close>, the dictionary that \<open>generate_podcast\<close> returns.\<close>

record response =
  response_podcast_text :: string
  response_audio_file :: string
  response_created_at :: string

datatype datetime = Datetime int

record feed_entry =
  fe_id :: string
  fe_title :: string
  fe_link :: string
  fe_description :: string
  fe_enclosure :: "string \<times> nat \<times> string"
  fe_pubDate :: datetime

text \<open>The feed under construction; \<open>fg_entries\<close> lists the entries in the order of the
  \<open>add_entry\<close> calls.\<close>

record feed =
  fg_id :: string
  fg_title :: string
  fg_author :: "string \<times> string"
  fg_links :: "(string \<times> string) list"
  fg_description :: string
  fg_language :: string
  fg_lastBuildDate :: datetime
  fg_entries :: "feed_entry list"

text \<open>The environment variables read at import time; \<open>os.getenv\<close> without a default
  gives \<open>None\<close> for an unset variable.\<close>

record config =
  ELEVENLABS_API_KEY :: "string option"
  PODCAST_DIR :: string
  GCS_BUCKET_NAME :: "string option"
  VOICE_NAME :: string
  RSS_FEED_PATH :: string
  PODCAST_TITLE :: string
  PODCAST_AUTHOR :: string
  PODCAST_EMAIL :: string
  PODCAST_DESCRIPTION :: string
  PODCAST_BASE_URL :: string

text \<open>The calls inside the \<open>try\<close> block of \<open>generate_podcast\<close>. Each callee absorbs the
  failures of its collaborator in handlers of its own; \<open>unexpected w s = Some e\<close> stands
  for an exception that escapes the call all the same (a fault inside a handler, a lack
  of memory, a callee replaced by one that raises), which only the handler of
  \<open>generate_podcast\<close> catches. The call that raises has no effect on the state.\<close>

datatype step = Fetch | Compose | Synthesize | Publish | Regenerate

text \<open>What the outside gives in one run: \<open>parse\<close> is \<open>feedparser.parse(source).entries\<close>,
  \<open>rand\<close> the numbers behind \<open>random.sample\<close>, \<open>choices i\<close> the draws of the \<open>i\<close>-th
  conversation, the \<open>now_\<close> fields the clock readings (line 231, line 257, the
  \<open>created_at\<close> of the returned dictionary, line 194), \<open>synthesis text voice filename\<close>
  the calls \<open>generate\<close> and \<open>save\<close>, \<open>storage_upload bucket file blob\<close> the upload with the
  public URL it yields, \<open>fromisoformat\<close> the date parser, \<open>set_date\<close> whether the feed
  library takes a date (\<open>lastBuildDate\<close>, \<open>pubDate\<close>), \<open>rss_file\<close> the writing of the
  document, and \<open>unexpected s\<close> an exception that escapes step \<open>s\<close>.\<close>

record world =
  parse :: "string \<Rightarrow> exn + entry list"
  rand :: "nat \<Rightarrow> nat"
  choices :: "nat \<Rightarrow> draws"
  now_strftime :: string
  now_isoformat_record :: string
  now_isoformat_return :: string
  now_build :: datetime
  synthesis :: "string \<Rightarrow> string \<Rightarrow> string \<Rightarrow> exn + unit"
  storage_upload :: "string \<Rightarrow> string \<Rightarrow> string \<Rightarrow> exn + string"
  fromisoformat :: "string \<Rightarrow> exn + datetime"
  set_date :: "datetime \<Rightarrow> exn + unit"
  rss_file :: "feed \<Rightarrow> string \<Rightarrow> exn + unit"
  unexpected :: "step \<Rightarrow> exn option"

subsection \<open>Python helpers\<close>

text \<open>Truth value of an optional string: \<open>None\<close> and the empty string are false.\<close>

definition truthy :: "string option \<Rightarrow> bool" where
  "truthy v = (case v of None \<Rightarrow> False | Some s \<Rightarrow> s \<noteq> [])"

text \<open>\<open>os.path.join\<close> of two components on a POSIX system.\<close>

definition path_join :: "string \<Rightarrow> string \<Rightarrow> string" where
  "path_join a b =
     (if b \<noteq> [] \<and> hd b = CHR ''/'' then b
      else if a = [] \<or> last a = CHR ''/'' then a @ b
      else a @ ''/'' @ b)"

text \<open>\<open>random.choice(seq)\<close> on a non-empty sequence, for the index drawn.\<close>

definition choice :: "'a list \<Rightarrow> nat \<Rightarrow> 'a" where
  "choice seq d = seq ! (d mod length seq)"

text \<open>\<open>random.sample(population, k)\<close> as the standard library computes it for a small
  population: a pool that starts as a copy of the population; each round draws a
  position below the pool's live length, takes the element there and moves the last
  live element into the hole. \<open>rnd i\<close> is the \<open>i\<close>-th number the random source gives.\<close>

fun sample_pool :: "(nat \<Rightarrow> nat) \<Rightarrow> nat \<Rightarrow> 'a list \<Rightarrow> nat \<Rightarrow> 'a list" where
  "sample_pool rnd i pool 0 = []"
| "sample_pool rnd i pool (Suc k) =
     (if pool = [] then []
      else (let j = rnd i mod length pool
            in pool ! j # sample_pool rnd (Suc i) (butlast (pool[j := last pool])) k))"

definition sample :: "(nat \<Rightarrow> nat) \<Rightarrow> 'a list \<Rightarrow> nat \<Rightarrow> 'a list" where
  "sample rnd population k = sample_pool rnd 0 population k"

subsection \<open>fetch_tech_news\<close>

definition news_sources :: "string list" where
  "news_sources =
     [''https://news.ycombinator.com/rss'',
      ''https://www.theverge.com/rss/index.xml'',
      ''https://www.wired.com/feed/rss'']"

text \<open>The inner loop over \<open>feed.entries[:3]\<close>: every entry read in full is appended; the
  first entry whose \<open>title\<close> or \<open>link\<close> is missing raises, which ends the loop for this
  source and keeps what was appended before.\<close>

fun append_entries :: "string \<Rightarrow> entry list \<Rightarrow> topic list \<Rightarrow> topic list" where
  "append_entries src [] news_list = news_list"
| "append_entries src (e # es) news_list =
     (case entry_title e of
        None \<Rightarrow> news_list
      | Some t \<Rightarrow>
          (case entry_link e of
             None \<Rightarrow> news_list
           | Some l \<Rightarrow>
               append_entries src es
                 (news_list @
                  [\<lparr>title = t, link = l,
                    summary = (case entry_summary e of
                                 None \<Rightarrow> ''No summary available''
                               | Some s \<Rightarrow> s),
                    source = src\<rparr>])))"

text \<open>The outer loop over the sources; a source whose parse raises is skipped.\<close>

fun fetch_sources :: "world \<Rightarrow> string list \<Rightarrow> topic list \<Rightarrow> topic list" where
  "fetch_sources w [] news_list = news_list"
| "fetch_sources w (src # srcs) news_list =
     (case parse w src of
        Inl e \<Rightarrow> fetch_sources w srcs news_list
      | Inr es \<Rightarrow> fetch_sources w srcs (append_entries src (take 3 es) news_list))"

definition fallback_topic :: topic where
  "fallback_topic =
     \<lparr>title = ''No fresh news found.'', link = '''',
      summary = ''Backup topic: Recent advancements in AI technology'',
      source = ''fallback''\<rparr>"

text \<open>The two statements after the loops: the down-sampling and the fallback.\<close>

definition select_news :: "(nat \<Rightarrow> nat) \<Rightarrow> topic list \<Rightarrow> topic list" where
  "select_news rnd news_list =
     (let news_list' = (if length news_list > 5 then sample rnd news_list 5 else news_list)
      in if news_list' \<noteq> [] then news_list' else [fallback_topic])"

definition fetch_tech_news :: "world \<Rightarrow> topic list" where
  "fetch_tech_news w = select_news (rand w) (fetch_sources w news_sources [])"

subsection \<open>generate_conversation\<close>

definition AI_GUESTS :: "guest list" where
  "AI_GUESTS =
     [\<lparr>name = ''Dr. Nova'', style = ''formal'',
       intro = ''As an AI researcher, I can tell you...''\<rparr>,
      \<lparr>name = ''Tech Rebel'', style = ''casual'', intro = ''Look, the way I see it...''\<rparr>,
      \<lparr>name = ''ByteBot 3000'', style = ''humor'',
       intro = ''Oh great, another AI debate! Let's dive in...''\<rparr>,
      \<lparr>name = ''LogicCore'', style = ''logical'',
       intro = ''Pure logic dictates the outcome.''\<rparr>,
      \<lparr>name = ''Glitch'', style = ''chaotic'',
       intro = ''Binary chaos detected, let's analyze...''\<rparr>]"

definition host_intros :: "string list" where
  "host_intros =
     [''Let's get your thoughts on this.'',
      ''What's your take on this story?'',
      ''I'd love to hear your perspective on this.'',
      ''Any insights to share about this news?'',
      ''How do you interpret this development?'']"

definition host_responses :: "string list" where
  "host_responses =
     [''That's fascinating.'',
      ''I hadn't thought of it that way.'',
      ''Interesting perspective!'',
      ''You make a good point there.'',
      ''That's quite insightful.'']"

definition sectors :: "string list" where
  "sectors = [''healthcare'', ''education'', ''finance'', ''entertainment'', ''transportation'']"

text \<open>The string that the \<open>try\<close> block builds, for the four values chosen.\<close>

definition conversation :: "guest \<Rightarrow> string \<Rightarrow> string \<Rightarrow> string \<Rightarrow> topic \<Rightarrow> string" where
  "conversation g host_intro host_response sector t =
     ''\<newline>Host: Let's talk about '' @ title t @ ''. '' @ host_intro @ ''\<newline>\<newline>''
     @ name g @ '' ('' @ style g @ ''): '' @ intro g @ '' ''
     @ ''I was reading about '' @ title t @ ''. ''
     @ ''The article mentions '' @ take 100 (summary t) @ ''... ''
     @ ''This is particularly interesting because it highlights the rapid pace of technological change.\<newline>\<newline>''
     @ ''Host: '' @ host_response @ '' What implications do you think this has for the future?\<newline>\<newline>''
     @ name g @ '': Well, if we extrapolate from current trends, ''
     @ ''we might see significant changes in how we interact with technology. ''
     @ ''This development could potentially impact various sectors including ''
     @ sector @ ''.\<newline>''"

text \<open>The \<open>try\<close> block: it raises when a call of the random source raises.\<close>

definition render :: "draws \<Rightarrow> topic \<Rightarrow> exn + string" where
  "render d t =
     (case guest_draw d of
        Inl e \<Rightarrow> Inl e
      | Inr gi \<Rightarrow>
          (case host_intro_draw d of
             Inl e \<Rightarrow> Inl e
           | Inr hi \<Rightarrow>
               (case host_response_draw d of
                  Inl e \<Rightarrow> Inl e
                | Inr hr \<Rightarrow>
                    (case sector_draw d of
                       Inl e \<Rightarrow> Inl e
                     | Inr si \<Rightarrow>
                         Inr (conversation (choice AI_GUESTS gi) (choice host_intros hi)
                                (choice host_responses hr) (choice sectors si) t)))))"

definition generate_conversation :: "draws \<Rightarrow> topic \<Rightarrow> string" where
  "generate_conversation d t =
     (case render d t of
        Inr c \<Rightarrow> c
      | Inl e \<Rightarrow>
          ''\<newline>Podcast Topic: '' @ title t
          @ ''\<newline>Guest: Let me share my thoughts on this topic. ''
          @ take 100 (summary t) @ ''...'')"

subsection \<open>text_to_speech and upload_to_gcs\<close>

text \<open>The second component of the result lists the texts sent to the speech service.\<close>

definition text_to_speech ::
    "config \<Rightarrow> world \<Rightarrow> string \<Rightarrow> string option \<Rightarrow> string \<times> string list" where
  "text_to_speech cfg w text filename =
     (if \<not> truthy (ELEVENLABS_API_KEY cfg) then (''audio_generation_skipped.mp3'', [])
      else
        (let filename' =
               (case filename of
                  None \<Rightarrow>
                    path_join (PODCAST_DIR cfg)
                      (''podcast_episode_'' @ now_strftime w @ ''.mp3'')
                | Some f \<Rightarrow> f)
         in case synthesis w text (VOICE_NAME cfg) filename' of
              Inr u \<Rightarrow> (filename', [text])
            | Inl e \<Rightarrow> (''audio_generation_failed.mp3'', [text])))"

definition upload_to_gcs :: "world \<Rightarrow> string option \<Rightarrow> string \<Rightarrow> string \<Rightarrow> string option" where
  "upload_to_gcs w bucket_name source_file_name destination_blob_name =
     (case bucket_name of
        None \<Rightarrow> None
      | Some b \<Rightarrow>
          if b = [] then None
          else (case storage_upload w b source_file_name destination_blob_name of
                  Inr public_url \<Rightarrow> Some public_url
                | Inl e \<Rightarrow> None))"

subsection \<open>generate_rss_feed\<close>

definition feed_entry_of :: "episode \<Rightarrow> datetime \<Rightarrow> feed_entry" where
  "feed_entry_of ep d =
     \<lparr>fe_id = audio_url ep,
      fe_title = ''Episode '' @ timestamp ep,
      fe_link = audio_url ep,
      fe_description = take 500 (podcast_text ep) @ ''...'',
      fe_enclosure = (audio_url ep, 0, ''audio/mpeg''),
      fe_pubDate = d\<rparr>"

text \<open>The loop over the episodes: an entry is added for each, until a date fails to
  parse or the feed library rejects it.\<close>

fun add_entries :: "world \<Rightarrow> episode list \<Rightarrow> feed_entry list \<Rightarrow> exn + feed_entry list" where
  "add_entries w [] acc = Inr acc"
| "add_entries w (ep # eps) acc =
     (case fromisoformat w (created_at ep) of
        Inl e \<Rightarrow> Inl e
      | Inr d \<Rightarrow>
          (case set_date w d of
             Inl e \<Rightarrow> Inl e
           | Inr u \<Rightarrow> add_entries w eps (acc @ [feed_entry_of ep d])))"

text \<open>The result is \<open>None\<close> when the \<open>except\<close> branch ran (nothing was written), and
  otherwise the document written to the local path with the result of its upload.\<close>

definition generate_rss_feed ::
    "config \<Rightarrow> world \<Rightarrow> episode list \<Rightarrow> (feed \<times> string option) option" where
  "generate_rss_feed cfg w episodes =
     (case set_date w (now_build w) of
        Inl e \<Rightarrow> None
      | Inr u \<Rightarrow>
          (case add_entries w episodes [] of
             Inl e \<Rightarrow> None
           | Inr es \<Rightarrow>
               (let fg = \<lparr>fg_id = PODCAST_BASE_URL cfg,
                          fg_title = PODCAST_TITLE cfg,
                          fg_author = (PODCAST_AUTHOR cfg, PODCAST_EMAIL cfg),
                          fg_links =
                            [(PODCAST_BASE_URL cfg, ''alternate''),
                             (PODCAST_BASE_URL cfg @ ''/'' @ RSS_FEED_PATH cfg, ''self'')],
                          fg_description = PODCAST_DESCRIPTION cfg,
                          fg_language = ''en'',
                          fg_lastBuildDate = now_build w,
                          fg_entries = es\<rparr>;
                    local = path_join (PODCAST_DIR cfg) (RSS_FEED_PATH cfg)
                in case rss_file w fg local of
                     Inl e \<Rightarrow> None
                   | Inr u' \<Rightarrow>
                       Some (fg,
                             if truthy (GCS_BUCKET_NAME cfg)
                             then upload_to_gcs w (GCS_BUCKET_NAME cfg) local (RSS_FEED_PATH cfg)
                             else None))))"


subsection \<open>generate_podcast\<close>

text \<open>The process state: the module-level list and the feed document last written.\<close>

record state =
  podcast_episodes :: "episode list"
  rss_document :: "feed option"

text \<open>The state after import (line 54): no episode, no document written.\<close>

definition empty_state :: state where
  "empty_state = \<lparr>podcast_episodes = [], rss_document = None\<rparr>"

text \<open>The loop over the topics; \<open>i\<close> counts the conversations of the run.\<close>

fun conversations :: "world \<Rightarrow> nat \<Rightarrow> topic list \<Rightarrow> string \<Rightarrow> string" where
  "conversations w i [] episode_content = episode_content"
| "conversations w i (t # ts) episode_content =
     conversations w (Suc i) ts
       (episode_content @ generate_conversation (choices w i) t @ ''\<newline>\<newline>'')"

definition episode_content :: "config \<Rightarrow> world \<Rightarrow> string \<Rightarrow> topic list \<Rightarrow> string" where
  "episode_content cfg w ts topics =
     conversations w 0 topics
       (''Welcome to '' @ PODCAST_TITLE cfg @ ''. Episode '' @ ts @ ''.\<newline>''
        @ ''Today we'll be discussing the latest in AI and tech news.\<newline>\<newline>'')
     @ ''\<newline>Thanks for listening to this episode of '' @ PODCAST_TITLE cfg
     @ ''. Join us next time for more AI discussions!''"

definition audio_filename :: "config \<Rightarrow> world \<Rightarrow> string \<Rightarrow> string \<Rightarrow> string" where
  "audio_filename cfg w text ts =
     fst (text_to_speech cfg w text
            (Some (path_join (PODCAST_DIR cfg) (''podcast_episode_'' @ ts @ ''.mp3''))))"

definition audio_url_of :: "config \<Rightarrow> world \<Rightarrow> string \<Rightarrow> string \<Rightarrow> string option" where
  "audio_url_of cfg w file ts =
     (if truthy (GCS_BUCKET_NAME cfg)
      then upload_to_gcs w (GCS_BUCKET_NAME cfg) file
             (''episodes/podcast_episode_'' @ ts @ ''.mp3'')
      else None)"

definition final_url :: "string option \<Rightarrow> string \<Rightarrow> string" where
  "final_url url file = (case url of None \<Rightarrow> file | Some u \<Rightarrow> if u \<noteq> [] then u else file)"

definition episode_data :: "config \<Rightarrow> world \<Rightarrow> string \<Rightarrow> string \<Rightarrow> episode" where
  "episode_data cfg w text ts =
     (let file = audio_filename cfg w text ts
      in \<lparr>podcast_text = text,
          audio_file = file,
          audio_url = final_url (audio_url_of cfg w file ts) file,
          timestamp = ts,
          created_at = now_isoformat_record w\<rparr>)"

text \<open>\<open>append\<close>, then the slice \<open>[-10:]\<close> when more than ten are held.\<close>

definition ledger_append :: "episode list \<Rightarrow> episode \<Rightarrow> episode list" where
  "ledger_append episodes ep =
     (let episodes' = episodes @ [ep]
      in if length episodes' > 10 then drop (length episodes' - 10) episodes' else episodes')"

definition error_response :: "world \<Rightarrow> response" where
  "error_response w =
     \<lparr>response_podcast_text = ''Error generating podcast.'',
      response_audio_file = ''error.mp3'',
      response_created_at = now_isoformat_return w\<rparr>"

text \<open>The body of the \<open>try\<close> block, with the state it leaves when it raises.\<close>

definition generate_podcast_try :: "config \<Rightarrow> world \<Rightarrow> state \<Rightarrow> (exn + response) \<times> state" where
  "generate_podcast_try cfg w st =
     (case unexpected w Fetch of
        Some e \<Rightarrow> (Inl e, st)
      | None \<Rightarrow>
     (let topics = fetch_tech_news w in
      if topics = [] then
        (Inr \<lparr>response_podcast_text = ''No topics available for this episode.'',
              response_audio_file = ''no_episode.mp3'',
              response_created_at = now_isoformat_return w\<rparr>, st)
      else
     (let ts = now_strftime w in
      case unexpected w Compose of
        Some e \<Rightarrow> (Inl e, st)
      | None \<Rightarrow>
     (let text = episode_content cfg w ts topics in
      case unexpected w Synthesize of
        Some e \<Rightarrow> (Inl e, st)
      | None \<Rightarrow>
     (case (if truthy (GCS_BUCKET_NAME cfg) then unexpected w Publish else None) of
        Some e \<Rightarrow> (Inl e, st)
      | None \<Rightarrow>
     (let ep = episode_data cfg w text ts;
          st1 = st\<lparr>podcast_episodes := ledger_append (podcast_episodes st) ep\<rparr>
      in case unexpected w Regenerate of
           Some e \<Rightarrow> (Inl e, st1)
         | None \<Rightarrow>
             (Inr \<lparr>response_podcast_text = text,
                   response_audio_file = audio_url ep,
                   response_created_at = now_isoformat_return w\<rparr>,
              case generate_rss_feed cfg w (podcast_episodes st1) of
                None \<Rightarrow> st1
              | Some (fg, u) \<Rightarrow> st1\<lparr>rss_document := Some fg\<rparr>)))))))"

definition generate_podcast :: "config \<Rightarrow> world \<Rightarrow> state \<Rightarrow> (exn + response) \<times> state" where
  "generate_podcast cfg w st =
     (case generate_podcast_try cfg w st of
        (Inr r, st') \<Rightarrow> (Inr r, st')
      | (Inl e, st') \<Rightarrow> (Inr (error_response w), st'))"

text \<open>The script and the episode record of a run that reaches line 252.\<close>

definition run_text :: "config \<Rightarrow> world \<Rightarrow> string" where
  "run_text cfg w = episode_content cfg w (now_strftime w) (fetch_tech_news w)"

definition run_episode :: "config \<Rightarrow> world \<Rightarrow> episode" where
  "run_episode cfg w = episode_data cfg w (run_text cfg w) (now_strftime w)"

text \<open>The exception, if any, that escapes a step before the append of line 261.\<close>

definition before_append :: "config \<Rightarrow> world \<Rightarrow> exn option" where
  "before_append cfg w =
     (case unexpected w Fetch of
        Some e \<Rightarrow> Some e
      | None \<Rightarrow>
          (case unexpected w Compose of
             Some e \<Rightarrow> Some e
           | None \<Rightarrow>
               (case unexpected w Synthesize of
                  Some e \<Rightarrow> Some e
                | None \<Rightarrow> if truthy (GCS_BUCKET_NAME cfg) then unexpected w Publish else None)))"

text \<open>A sequence of runs, one world each, from left to right.\<close>

fun runs :: "config \<Rightarrow> world list \<Rightarrow> state \<Rightarrow> state" where
  "runs cfg [] st = st"
| "runs cfg (w # ws) st = runs cfg ws (snd (generate_podcast cfg w st))"

subsection \<open>get_latest_episode\<close>

text \<open>The endpoint's \<open>try\<close> block, then its \<open>except Exception\<close>; the framework's
  \<open>HTTPException\<close> is a subclass of \<open>Exception\<close>. \<open>str_of\<close> is Python's \<open>str\<close> on
  an exception.\<close>

definition latest_try :: "episode list \<Rightarrow> exn + response" where
  "latest_try episodes =
     (if episodes = [] then Inl (HTTPException 404 ''No episodes found'')
      else (let latest = last episodes
            in Inr \<lparr>response_podcast_text = podcast_text latest,
                    response_audio_file = audio_url latest,
                    response_created_at = created_at latest\<rparr>))"

definition get_latest_episode :: "(exn \<Rightarrow> string) \<Rightarrow> episode list \<Rightarrow> exn + response" where
  "get_latest_episode str_of episodes =
     (case latest_try episodes of
        Inr r \<Rightarrow> Inr r
      | Inl e \<Rightarrow> Inl (HTTPException 500 (''Internal server error: '' @ str_of e)))"

section \<open>Concrete inputs\<close>

definition demo_episode :: "nat \<Rightarrow> episode" where
  "demo_episode n =
     \<lparr>podcast_text = ''text'', audio_file = ''a.mp3'', audio_url = ''a.mp3'',
      timestamp = replicate n (CHR ''1''), created_at = ''2024-01-01T00:00:00''\<rparr>"



definition demo_config :: config where
  "demo_config =
     \<lparr>ELEVENLABS_API_KEY = None, PODCAST_DIR = ''/tmp/episodes'', GCS_BUCKET_NAME = None,
      VOICE_NAME = ''Bella'', RSS_FEED_PATH = ''feed.rss'',
      PODCAST_TITLE = ''The Neural Narrative'', PODCAST_AUTHOR = ''AI Podcast Generator'',
      PODCAST_EMAIL = ''ai@example.com'',
      PODCAST_DESCRIPTION = ''An AI-generated podcast about technology.'',
      PODCAST_BASE_URL = ''https://example.com/podcast''\<rparr>"

definition demo_draws :: draws where
  "demo_draws =
     \<lparr>guest_draw = Inr 7, host_intro_draw = Inr 1, host_response_draw = Inr 2,
      sector_draw = Inr 3\<rparr>"

definition failing_draws :: draws where
  "failing_draws = demo_draws\<lparr>host_response_draw := Inl (Exception ''random source failed'')\<rparr>"

definition demo_world :: world where
  "demo_world =
     \<lparr>parse = (\<lambda>src. Inr []), rand = (\<lambda>i. 7 * i + 3), choices = (\<lambda>i. demo_draws),
      now_strftime = ''20240101_080000'',
      now_isoformat_record = ''2024-01-01T08:00:05'',
      now_isoformat_return = ''2024-01-01T08:00:06'',
      now_build = Datetime 0,
      synthesis = (\<lambda>text voice file. Inr ()),
      storage_upload = (\<lambda>b src dst. Inr (''https://storage.googleapis.com/'' @ b @ ''/'' @ dst)),
      fromisoformat = (\<lambda>s. Inr (Datetime (int (length s)))),
      set_date = (\<lambda>d. Inr ()),
      rss_file = (\<lambda>fg path. Inr ()),
      unexpected = (\<lambda>s. None)\<rparr>"

definition long_topic :: topic where
  "long_topic = \<lparr>title = ''Chips'', link = ''https://example.com/chips'',
     summary = replicate 150 (CHR ''x''), source = ''https://www.wired.com/feed/rss''\<rparr>"

definition fetch_fails :: world where
  "fetch_fails = demo_world\<lparr>unexpected := (\<lambda>s. if s = Fetch then Some (Exception ''boom'') else None)\<rparr>"


definition keyed_config :: config where
  "keyed_config = demo_config\<lparr>ELEVENLABS_API_KEY := Some ''key''\<rparr>"

definition bucket_config :: config where
  "bucket_config = keyed_config\<lparr>GCS_BUCKET_NAME := Some ''bucket''\<rparr>"

definition synthesis_fails :: world where
  "synthesis_fails = demo_world\<lparr>synthesis := (\<lambda>text voice file. Inl (Exception ''quota''))\<rparr>"

definition upload_fails :: world where
  "upload_fails = demo_world\<lparr>storage_upload := (\<lambda>b src dst. Inl (Exception ''forbidden''))\<rparr>"


section \<open>Properties\<close>

subsection \<open>The episode list\<close>

lemma ledger_append_drop: "ledger_append eps ep = drop (Suc (length eps) - 10) (eps @ [ep])"
  by (simp add: ledger_append_def Let_def)

lemma ledger_append_length: "length eps \<le> 10 \<Longrightarrow> length (ledger_append eps ep) \<le> 10"
  by (simp add: ledger_append_drop)

lemma foldl_ledger_append:
  "length eps \<le> 10 \<Longrightarrow>
   foldl ledger_append eps recs = drop (length eps + length recs - 10) (eps @ recs)"
proof (induction recs arbitrary: eps)
  case Nil
  then show ?case by simp
next
  case (Cons r rs)
  let ?a = "Suc (length eps) - 10"
  have len: "length (drop ?a (eps @ [r])) \<le> 10" using Cons.prems by simp
  have "foldl ledger_append eps (r # rs) = foldl ledger_append (drop ?a (eps @ [r])) rs"
    by (simp add: ledger_append_drop)
  also have "\<dots> = drop (length (drop ?a (eps @ [r])) + length rs - 10) (drop ?a (eps @ [r]) @ rs)"
    using len by (rule Cons.IH)
  also have "drop ?a (eps @ [r]) @ rs = drop ?a (eps @ r # rs)"
    by simp
  also have "drop (length (drop ?a (eps @ [r])) + length rs - 10) (drop ?a (eps @ r # rs))
      = drop (length eps + length (r # rs) - 10) (eps @ r # rs)"
  proof -
    have "length (drop ?a (eps @ [r])) + length rs - 10 + ?a = length eps + length (r # rs) - 10"
      by simp
    then show ?thesis by (simp only: drop_drop)
  qed
  finally show ?case .
qed

subsection \<open>fetch_tech_news\<close>








lemma select_news_nonempty: "select_news rnd news_list \<noteq> []"
  by (simp add: select_news_def Let_def)



subsection \<open>get_latest_episode\<close>

text \<open>
  C4. With no episode held, the \<open>try\<close> block of the endpoint raises the 404 "No episodes
  found", and the endpoint's own \<open>except Exception\<close> turns it into a 500 "Internal server
  error": the caller never sees the not-found result.
\<close>

theorem latest_on_empty_ledger_is_500:
  "latest_try [] = Inl (HTTPException 404 ''No episodes found'')
   \<and> get_latest_episode str_of [] =
       Inl (HTTPException 500
             (''Internal server error: '' @ str_of (HTTPException 404 ''No episodes found'')))"
  by (simp add: get_latest_episode_def latest_try_def)

subsection \<open>generate_conversation\<close>

lemma generate_conversation_ok:
  "guest_draw d = Inr gi \<Longrightarrow> host_intro_draw d = Inr hi \<Longrightarrow> host_response_draw d = Inr hr \<Longrightarrow>
   sector_draw d = Inr si \<Longrightarrow>
   generate_conversation d t =
     conversation (choice AI_GUESTS gi) (choice host_intros hi) (choice host_responses hr)
       (choice sectors si) t"
  by (simp add: generate_conversation_def render_def)

lemma generate_conversation_fallback:
  "render d t = Inl e \<Longrightarrow>
   generate_conversation d t =
     ''\<newline>Podcast Topic: '' @ title t
     @ ''\<newline>Guest: Let me share my thoughts on this topic. ''
     @ take 100 (summary t) @ ''...''"
  by (simp add: generate_conversation_def)

lemma conversation_embeds:
  "\<exists>pre post. conversation g hi hr s t =
      pre @ ''The article mentions '' @ take 100 (summary t) @ ''... '' @ post"
proof -
  let ?pre = "''\<newline>Host: Let's talk about '' @ title t @ ''. '' @ hi @ ''\<newline>\<newline>''
     @ name g @ '' ('' @ style g @ ''): '' @ intro g @ '' ''
     @ ''I was reading about '' @ title t @ ''. ''"
  let ?post = "''This is particularly interesting because it highlights the rapid pace of technological change.\<newline>\<newline>''
     @ ''Host: '' @ hr @ '' What implications do you think this has for the future?\<newline>\<newline>''
     @ name g @ '': Well, if we extrapolate from current trends, ''
     @ ''we might see significant changes in how we interact with technology. ''
     @ ''This development could potentially impact various sectors including ''
     @ s @ ''.\<newline>''"
  have "conversation g hi hr s t =
      ?pre @ ''The article mentions '' @ take 100 (summary t) @ ''... '' @ ?post"
    by (simp add: conversation_def)
  then show ?thesis by blast
qed

text \<open>
  C5. When the four draws succeed, the exchange is the template, which holds the first
  100 characters of the summary between "The article mentions " and "... ". When the
  \<open>try\<close> block raises, \<open>generate_conversation\<close> returns the fallback sentence, built from
  the title and the first 100 characters of the summary, and the loop of
  \<open>generate_podcast\<close> goes on with the remaining topics.
\<close>

theorem conversation_truncates_and_falls_back:
  "(guest_draw d = Inr gi \<and> host_intro_draw d = Inr hi \<and> host_response_draw d = Inr hr
      \<and> sector_draw d = Inr si \<longrightarrow>
      generate_conversation d t =
        conversation (choice AI_GUESTS gi) (choice host_intros hi) (choice host_responses hr)
          (choice sectors si) t
      \<and> (\<exists>pre post. generate_conversation d t =
            pre @ ''The article mentions '' @ take 100 (summary t) @ ''... '' @ post))
   \<and> (render d t = Inl e \<longrightarrow>
        generate_conversation d t =
          ''\<newline>Podcast Topic: '' @ title t
          @ ''\<newline>Guest: Let me share my thoughts on this topic. ''
          @ take 100 (summary t) @ ''...'')
   \<and> (render (choices w i) t = Inl e \<longrightarrow>
        conversations w i (t # ts) acc =
          conversations w (Suc i) ts
            (acc @ (''\<newline>Podcast Topic: '' @ title t
                    @ ''\<newline>Guest: Let me share my thoughts on this topic. ''
                    @ take 100 (summary t) @ ''...'') @ ''\<newline>\<newline>''))"
proof (intro conjI impI)
  assume a: "guest_draw d = Inr gi \<and> host_intro_draw d = Inr hi \<and> host_response_draw d = Inr hr
      \<and> sector_draw d = Inr si"
  then show eq: "generate_conversation d t =
        conversation (choice AI_GUESTS gi) (choice host_intros hi) (choice host_responses hr)
          (choice sectors si) t"
    by (simp add: generate_conversation_ok)
  show "\<exists>pre post. generate_conversation d t =
            pre @ ''The article mentions '' @ take 100 (summary t) @ ''... '' @ post"
    unfolding eq by (rule conversation_embeds)
next
  assume "render d t = Inl e"
  then show "generate_conversation d t =
          ''\<newline>Podcast Topic: '' @ title t
          @ ''\<newline>Guest: Let me share my thoughts on this topic. ''
          @ take 100 (summary t) @ ''...''"
    by (rule generate_conversation_fallback)
next
  assume "render (choices w i) t = Inl e"
  then show "conversations w i (t # ts) acc =
          conversations w (Suc i) ts
            (acc @ (''\<newline>Podcast Topic: '' @ title t
                    @ ''\<newline>Guest: Let me share my thoughts on this topic. ''
                    @ take 100 (summary t) @ ''...'') @ ''\<newline>\<newline>'')"
    by (simp add: generate_conversation_fallback)
qed

theorem conversation_truncates_and_falls_back_witness:
  "render failing_draws long_topic = Inl (Exception ''random source failed'')
   \<and> generate_conversation failing_draws long_topic =
       ''\<newline>Podcast Topic: Chips\<newline>Guest: Let me share my thoughts on this topic. ''
       @ replicate 100 (CHR ''x'') @ ''...''
   \<and> (\<exists>pre post. generate_conversation demo_draws long_topic =
         pre @ ''The article mentions '' @ replicate 100 (CHR ''x'') @ ''... '' @ post)"
proof -
  have r: "render failing_draws long_topic = Inl (Exception ''random source failed'')"
    by (simp add: render_def failing_draws_def demo_draws_def)
  have d: "guest_draw demo_draws = Inr 7 \<and> host_intro_draw demo_draws = Inr 1
      \<and> host_response_draw demo_draws = Inr 2 \<and> sector_draw demo_draws = Inr 3"
    by (simp add: demo_draws_def)
  have s: "take 100 (summary long_topic) = replicate 100 (CHR ''x'')"
    by (simp add: long_topic_def)
  have ti: "title long_topic = ''Chips''" by (simp add: long_topic_def)
  from conversation_truncates_and_falls_back
         [of failing_draws _ _ _ _ long_topic "Exception ''random source failed''"] r
  have "generate_conversation failing_draws long_topic =
          ''\<newline>Podcast Topic: '' @ title long_topic
          @ ''\<newline>Guest: Let me share my thoughts on this topic. ''
          @ take 100 (summary long_topic) @ ''...''"
    by blast
  moreover from conversation_truncates_and_falls_back[of demo_draws 7 1 2 3 long_topic] d
  have "\<exists>pre post. generate_conversation demo_draws long_topic =
            pre @ ''The article mentions '' @ take 100 (summary long_topic) @ ''... '' @ post"
    by blast
  ultimately show ?thesis using r by (simp add: s ti)
qed

subsection \<open>The script\<close>

lemma conversations_concat:
  "conversations w i ts acc =
     acc @ concat (map (\<lambda>(k, t). generate_conversation (choices w k) t @ ''\<newline>\<newline>'')
                     (zip [i..<i + length ts] ts))"
proof (induction ts arbitrary: i acc)
  case Nil
  then show ?case by simp
next
  case (Cons t ts)
  have "[i..<i + Suc (length ts)] = i # [Suc i..<i + Suc (length ts)]"
    by (rule upt_conv_Cons) simp
  then have "[i..<i + length (t # ts)] = i # [Suc i..<Suc i + length ts]"
    by simp
  then show ?case by (simp add: Cons.IH del: upt_Suc)
qed

text \<open>
  C9. The script is the opening (show title and run timestamp), then for each topic in
  input order its exchange followed by a blank line, then the closing sentence: one
  block for each topic, one opening and one closing.
\<close>

theorem script_is_opening_blocks_closing:
  "episode_content cfg w ts topics =
     (''Welcome to '' @ PODCAST_TITLE cfg @ ''. Episode '' @ ts @ ''.\<newline>''
      @ ''Today we'll be discussing the latest in AI and tech news.\<newline>\<newline>'')
     @ concat (map (\<lambda>(k, t). generate_conversation (choices w k) t @ ''\<newline>\<newline>'')
                 (zip [0..<length topics] topics))
     @ (''\<newline>Thanks for listening to this episode of '' @ PODCAST_TITLE cfg
        @ ''. Join us next time for more AI discussions!'')
   \<and> length (map (\<lambda>(k, t). generate_conversation (choices w k) t @ ''\<newline>\<newline>'')
                 (zip [0..<length topics] topics)) = length topics
   \<and> map snd (zip [0..<length topics] topics) = topics"
  by (simp add: episode_content_def conversations_concat)

theorem script_is_opening_blocks_closing_witness:
  "episode_content demo_config demo_world ''20240101_080000'' [long_topic, fallback_topic] =
     ''Welcome to The Neural Narrative. Episode 20240101_080000.\<newline>''
     @ ''Today we'll be discussing the latest in AI and tech news.\<newline>\<newline>''
     @ generate_conversation demo_draws long_topic @ ''\<newline>\<newline>''
     @ generate_conversation demo_draws fallback_topic @ ''\<newline>\<newline>''
     @ ''\<newline>Thanks for listening to this episode of The Neural Narrative. Join us next time for more AI discussions!''"
proof -
  have z: "zip [0..<length [long_topic, fallback_topic]] [long_topic, fallback_topic]
      = [(0, long_topic), (1, fallback_topic)]"
    by (simp add: upt_conv_Cons)
  have c: "choices demo_world = (\<lambda>i. demo_draws)" by (simp add: demo_world_def)
  have p: "PODCAST_TITLE demo_config = ''The Neural Narrative''" by (simp add: demo_config_def)
  show ?thesis
    using script_is_opening_blocks_closing
            [of demo_config demo_world "''20240101_080000''" "[long_topic, fallback_topic]"]
    unfolding z c p by simp
qed

subsection \<open>generate_podcast\<close>

lemma fetch_tech_news_nonempty: "fetch_tech_news w \<noteq> []"
  by (simp add: fetch_tech_news_def select_news_nonempty)

lemma generate_podcast_try_steps:
  "generate_podcast_try cfg w st =
     (case before_append cfg w of
        Some e \<Rightarrow> (Inl e, st)
      | None \<Rightarrow>
          (let st1 = st\<lparr>podcast_episodes := ledger_append (podcast_episodes st) (run_episode cfg w)\<rparr>
           in case unexpected w Regenerate of
                Some e \<Rightarrow> (Inl e, st1)
              | None \<Rightarrow>
                  (Inr \<lparr>response_podcast_text = run_text cfg w,
                        response_audio_file = audio_url (run_episode cfg w),
                        response_created_at = now_isoformat_return w\<rparr>,
                   case generate_rss_feed cfg w (podcast_episodes st1) of
                     None \<Rightarrow> st1
                   | Some (fg, u) \<Rightarrow> st1\<lparr>rss_document := Some fg\<rparr>)))"
  by (simp add: generate_podcast_try_def before_append_def run_text_def run_episode_def
        fetch_tech_news_nonempty Let_def split: option.splits)

lemma path_join_nonempty: "b \<noteq> [] \<Longrightarrow> path_join a b \<noteq> []"
  by (simp add: path_join_def)

lemma audio_filename_nonempty: "audio_filename cfg w text ts \<noteq> []"
  by (simp add: audio_filename_def text_to_speech_def path_join_nonempty Let_def
        split: sum.splits)

lemma final_url_nonempty: "file \<noteq> [] \<Longrightarrow> final_url url file \<noteq> []"
  by (simp add: final_url_def split: option.splits)

lemma run_episode_fields:
  "podcast_text (run_episode cfg w) = run_text cfg w"
  "audio_file (run_episode cfg w) = audio_filename cfg w (run_text cfg w) (now_strftime w)"
  "audio_url (run_episode cfg w) =
     final_url (audio_url_of cfg w (audio_file (run_episode cfg w)) (now_strftime w))
       (audio_file (run_episode cfg w))"
  "timestamp (run_episode cfg w) = now_strftime w"
  "created_at (run_episode cfg w) = now_isoformat_record w"
  by (simp_all add: run_episode_def episode_data_def Let_def)

lemma run_episode_url_nonempty: "audio_url (run_episode cfg w) \<noteq> []"
  by (simp add: run_episode_fields final_url_nonempty audio_filename_nonempty)

lemma episode_content_welcome:
  "\<exists>rest. episode_content cfg w ts topics = ''Welcome to '' @ rest"
  by (simp add: episode_content_def conversations_concat)

lemma run_text_nonempty: "run_text cfg w \<noteq> []"
  using episode_content_welcome[of cfg w "now_strftime w" "fetch_tech_news w"]
  by (auto simp: run_text_def)


lemma generate_podcast_fst:
  "fst (generate_podcast cfg w st) =
     (case fst (generate_podcast_try cfg w st) of
        Inl e \<Rightarrow> Inr (error_response w)
      | Inr r \<Rightarrow> Inr r)"
  by (cases "generate_podcast_try cfg w st") (simp add: generate_podcast_def split: sum.splits)

lemma generate_podcast_snd:
  "snd (generate_podcast cfg w st) = snd (generate_podcast_try cfg w st)"
  by (cases "generate_podcast_try cfg w st") (simp add: generate_podcast_def split: sum.splits)

text \<open>
  C1. \<open>generate_podcast\<close> returns a dictionary in every run, whatever the collaborators
  do and whichever step an exception escapes from: its text and its artifact reference
  are not empty and its \<open>created_at\<close> is the clock reading. When the \<open>try\<close> block raises,
  the dictionary is the fixed one with "Error generating podcast." and "error.mp3".
\<close>

theorem generate_podcast_always_returns_record:
  "\<exists>r. fst (generate_podcast cfg w st) = Inr r
       \<and> response_podcast_text r \<noteq> [] \<and> response_audio_file r \<noteq> []
       \<and> response_created_at r = now_isoformat_return w
       \<and> ((\<exists>e. fst (generate_podcast_try cfg w st) = Inl e) \<longrightarrow>
            r = \<lparr>response_podcast_text = ''Error generating podcast.'',
                 response_audio_file = ''error.mp3'',
                 response_created_at = now_isoformat_return w\<rparr>)"
proof (cases "fst (generate_podcast_try cfg w st)")
  case (Inl e)
  then have "fst (generate_podcast cfg w st) = Inr (error_response w)"
    by (simp add: generate_podcast_fst)
  then show ?thesis by (simp add: error_response_def)
next
  case (Inr r)
  then have g: "fst (generate_podcast cfg w st) = Inr r"
    by (simp add: generate_podcast_fst)
  from Inr have r: "r = \<lparr>response_podcast_text = run_text cfg w,
                        response_audio_file = audio_url (run_episode cfg w),
                        response_created_at = now_isoformat_return w\<rparr>"
    by (simp add: generate_podcast_try_steps Let_def split: option.splits)
  show ?thesis using g Inr
    by (simp add: r run_text_nonempty run_episode_url_nonempty)
qed

theorem generate_podcast_always_returns_record_witness:
  "fst (generate_podcast_try demo_config fetch_fails empty_state) = Inl (Exception ''boom'')
   \<and> fst (generate_podcast demo_config fetch_fails empty_state) =
       Inr \<lparr>response_podcast_text = ''Error generating podcast.'',
            response_audio_file = ''error.mp3'',
            response_created_at = ''2024-01-01T08:00:06''\<rparr>"
proof -
  have t: "fst (generate_podcast_try demo_config fetch_fails empty_state) = Inl (Exception ''boom'')"
    by (simp add: generate_podcast_try_def fetch_fails_def)
  have n: "now_isoformat_return fetch_fails = ''2024-01-01T08:00:06''"
    by (simp add: fetch_fails_def demo_world_def)
  from generate_podcast_always_returns_record[of demo_config fetch_fails empty_state]
  obtain r where "fst (generate_podcast demo_config fetch_fails empty_state) = Inr r"
    and "(\<exists>e. fst (generate_podcast_try demo_config fetch_fails empty_state) = Inl e) \<longrightarrow>
            r = \<lparr>response_podcast_text = ''Error generating podcast.'',
                 response_audio_file = ''error.mp3'',
                 response_created_at = now_isoformat_return fetch_fails\<rparr>"
    by blast
  with t n show ?thesis by simp
qed




lemma try_returns:
  "before_append cfg w = None \<Longrightarrow> unexpected w Regenerate = None \<Longrightarrow>
   generate_podcast_try cfg w st =
     (Inr \<lparr>response_podcast_text = run_text cfg w,
           response_audio_file = audio_url (run_episode cfg w),
           response_created_at = now_isoformat_return w\<rparr>,
      case generate_rss_feed cfg w (ledger_append (podcast_episodes st) (run_episode cfg w)) of
        None \<Rightarrow> st\<lparr>podcast_episodes := ledger_append (podcast_episodes st) (run_episode cfg w)\<rparr>
      | Some (fg, u) \<Rightarrow>
          st\<lparr>podcast_episodes := ledger_append (podcast_episodes st) (run_episode cfg w),
             rss_document := Some fg\<rparr>)"
  by (simp add: generate_podcast_try_steps Let_def split: option.splits)

lemma try_episodes:
  "podcast_episodes (snd (generate_podcast_try cfg w st)) =
     (case before_append cfg w of
        Some e \<Rightarrow> podcast_episodes st
      | None \<Rightarrow> ledger_append (podcast_episodes st) (run_episode cfg w))"
  by (simp add: generate_podcast_try_steps Let_def split: option.splits)






subsection \<open>text_to_speech and upload_to_gcs\<close>



lemma returns_of_clean_run:
  "before_append cfg w = None \<Longrightarrow> unexpected w Regenerate = None \<Longrightarrow>
   fst (generate_podcast cfg w st) =
     Inr \<lparr>response_podcast_text = run_text cfg w,
          response_audio_file = audio_url (run_episode cfg w),
          response_created_at = now_isoformat_return w\<rparr>"
  by (simp add: generate_podcast_fst try_returns)


lemma demo_before_append:
  "before_append keyed_config synthesis_fails = None"
  "before_append bucket_config synthesis_fails = None"
  "before_append demo_config demo_world = None"
  "before_append bucket_config upload_fails = None"
  by (simp_all add: before_append_def synthesis_fails_def upload_fails_def demo_world_def)



text \<open>
  C7. \<open>upload_to_gcs\<close> returns \<open>None\<close> when no bucket is set and when the upload raises.
  Whenever the publishing of a run gives \<open>None\<close> (in particular with no bucket set), the
  \<open>audio_url\<close> of the episode record is its local \<open>audio_file\<close>, and a run that no exception
  interrupts appends that record and returns the local path as the artifact reference.
\<close>

theorem publish_nil_falls_back_to_local_path:
  "(\<not> truthy bucket_name \<longrightarrow> upload_to_gcs w bucket_name src dst = None)
   \<and> (bucket_name = Some b \<and> storage_upload w b src dst = Inl e \<longrightarrow>
        upload_to_gcs w bucket_name src dst = None)
   \<and> final_url None file = file
   \<and> (\<not> truthy (GCS_BUCKET_NAME cfg) \<longrightarrow>
        audio_url_of cfg w (audio_file (run_episode cfg w)) (now_strftime w) = None)
   \<and> (audio_url_of cfg w (audio_file (run_episode cfg w)) (now_strftime w) = None \<longrightarrow>
        audio_url (run_episode cfg w) = audio_file (run_episode cfg w)
        \<and> (before_append cfg w = None \<and> unexpected w Regenerate = None \<longrightarrow>
             (\<exists>r. fst (generate_podcast cfg w st) = Inr r
                  \<and> response_audio_file r = audio_file (run_episode cfg w))
             \<and> last (podcast_episodes (snd (generate_podcast cfg w st))) = run_episode cfg w))"
proof (intro conjI impI)
  assume "\<not> truthy bucket_name"
  then show "upload_to_gcs w bucket_name src dst = None"
    by (simp add: upload_to_gcs_def truthy_def split: option.splits)
next
  assume "bucket_name = Some b \<and> storage_upload w b src dst = Inl e"
  then show "upload_to_gcs w bucket_name src dst = None"
    by (simp add: upload_to_gcs_def)
next
  show "final_url None file = file" by (simp add: final_url_def)
next
  assume "\<not> truthy (GCS_BUCKET_NAME cfg)"
  then show "audio_url_of cfg w (audio_file (run_episode cfg w)) (now_strftime w) = None"
    by (simp add: audio_url_of_def)
next
  assume n: "audio_url_of cfg w (audio_file (run_episode cfg w)) (now_strftime w) = None"
  show eq: "audio_url (run_episode cfg w) = audio_file (run_episode cfg w)"
    using run_episode_fields(3)[of cfg w] by (simp add: n final_url_def)
  assume c: "before_append cfg w = None \<and> unexpected w Regenerate = None"
  then show "\<exists>r. fst (generate_podcast cfg w st) = Inr r
                  \<and> response_audio_file r = audio_file (run_episode cfg w)"
    by (simp add: returns_of_clean_run eq)
  have "podcast_episodes (snd (generate_podcast cfg w st)) =
      ledger_append (podcast_episodes st) (run_episode cfg w)"
    using c by (simp add: generate_podcast_snd try_episodes)
  then show "last (podcast_episodes (snd (generate_podcast cfg w st))) = run_episode cfg w"
    by (simp add: ledger_append_drop)
qed

theorem publish_nil_falls_back_to_local_path_witness:
  "upload_to_gcs demo_world None ''a.mp3'' ''episodes/a.mp3'' = None
   \<and> upload_to_gcs upload_fails (Some ''bucket'') ''a.mp3'' ''episodes/a.mp3'' = None
   \<and> audio_url (run_episode demo_config demo_world) = ''audio_generation_skipped.mp3''
   \<and> audio_file (run_episode demo_config demo_world) = ''audio_generation_skipped.mp3''
   \<and> (\<exists>r. fst (generate_podcast demo_config demo_world empty_state) = Inr r
          \<and> response_audio_file r = ''audio_generation_skipped.mp3'')"
proof -
  have t: "\<not> truthy None" "\<not> truthy (GCS_BUCKET_NAME demo_config)"
    by (simp_all add: truthy_def demo_config_def)
  have s: "storage_upload upload_fails ''bucket'' ''a.mp3'' ''episodes/a.mp3''
      = Inl (Exception ''forbidden'')"
    by (simp add: upload_fails_def)
  have u: "unexpected demo_world Regenerate = None" by (simp add: demo_world_def)
  have f: "audio_file (run_episode demo_config demo_world) = ''audio_generation_skipped.mp3''"
    by (simp add: run_episode_fields audio_filename_def text_to_speech_def demo_config_def
          truthy_def)
  note p = publish_nil_falls_back_to_local_path
  from p[of None demo_world "''a.mp3''" "''episodes/a.mp3''"] t
  have 1: "upload_to_gcs demo_world None ''a.mp3'' ''episodes/a.mp3'' = None" by blast
  from p[of "Some ''bucket''" upload_fails "''a.mp3''" "''episodes/a.mp3''" "''bucket''"
           "Exception ''forbidden''"] s
  have 2: "upload_to_gcs upload_fails (Some ''bucket'') ''a.mp3'' ''episodes/a.mp3'' = None"
    by blast
  from p[of _ demo_world _ _ _ _ _ demo_config empty_state] t u demo_before_append(3)
  have 3: "audio_url (run_episode demo_config demo_world)
        = audio_file (run_episode demo_config demo_world)
      \<and> (\<exists>r. fst (generate_podcast demo_config demo_world empty_state) = Inr r
          \<and> response_audio_file r = audio_file (run_episode demo_config demo_world))"
    by blast
  from 1 2 3 show ?thesis unfolding f by blast
qed

subsection \<open>generate_rss_feed\<close>







subsection \<open>The episode list over runs\<close>

lemma runs_episodes:
  "podcast_episodes (runs cfg ws st) =
     foldl ledger_append (podcast_episodes st)
       (map (run_episode cfg) (filter (\<lambda>w. before_append cfg w = None) ws))"
proof (induction ws arbitrary: st)
  case Nil
  then show ?case by simp
next
  case (Cons w ws)
  show ?case
    by (cases "before_append cfg w")
      (simp_all add: Cons.IH generate_podcast_snd try_episodes)
qed

text \<open>
  C2. Appending the records \<open>recs\<close> one after the other to the empty list, each time as
  lines 261 to 265 do, leaves the last \<open>min (length recs) 10\<close> of them in their order;
  after eleven appends the first record held is the second one appended. The list
  after a sequence of runs from the initial state is the result of these appends for
  the episodes of the runs that reached the append.
\<close>

theorem ledger_holds_last_ten:
  "foldl ledger_append [] recs = drop (length recs - 10) recs
   \<and> length (foldl ledger_append [] recs) = min (length recs) 10
   \<and> (length recs = 11 \<longrightarrow> hd (foldl ledger_append [] recs) = recs ! 1)
   \<and> podcast_episodes (runs cfg ws empty_state) =
       foldl ledger_append []
         (map (run_episode cfg) (filter (\<lambda>w. before_append cfg w = None) ws))"
proof -
  have eq: "foldl ledger_append [] recs = drop (length recs - 10) recs"
    using foldl_ledger_append[of "[]" recs] by simp
  have "length recs = 11 \<Longrightarrow> hd (drop (length recs - 10) recs) = recs ! 1"
    by (simp add: hd_drop_conv_nth)
  moreover have "podcast_episodes (runs cfg ws empty_state) =
       foldl ledger_append []
         (map (run_episode cfg) (filter (\<lambda>w. before_append cfg w = None) ws))"
    using runs_episodes[of cfg ws empty_state] by (simp add: empty_state_def)
  ultimately show ?thesis using eq by auto
qed

theorem ledger_holds_last_ten_witness:
  "length (map demo_episode [1..<12]) = 11
   \<and> hd (foldl ledger_append [] (map demo_episode [1..<12])) = demo_episode 2
   \<and> length (foldl ledger_append [] (map demo_episode [1..<12])) = 10
   \<and> podcast_episodes (runs demo_config (replicate 11 demo_world) empty_state) =
       replicate 10 (run_episode demo_config demo_world)"
proof -
  define recs where "recs = map demo_episode [1..<12]"
  have l: "length recs = 11" by (simp add: recs_def)
  have n: "recs ! 1 = demo_episode 2" by (simp add: recs_def nth_map numeral_2_eq_2)
  have t: "foldl ledger_append [] recs = drop (length recs - 10) recs
     \<and> length (foldl ledger_append [] recs) = min (length recs) 10
     \<and> (length recs = 11 \<longrightarrow> hd (foldl ledger_append [] recs) = recs ! 1)"
    using ledger_holds_last_ten[of recs] by blast
  from t l have 1: "hd (foldl ledger_append [] recs) = recs ! 1" by blast
  from t have 2: "length (foldl ledger_append [] recs) = min (length recs) 10" by blast
  let ?eps = "replicate 11 (run_episode demo_config demo_world)"
  have f: "map (run_episode demo_config)
             (filter (\<lambda>w. before_append demo_config w = None) (replicate 11 demo_world)) = ?eps"
    by (simp add: demo_before_append)
  from ledger_holds_last_ten[of ?eps demo_config "replicate 11 demo_world"]
  have "podcast_episodes (runs demo_config (replicate 11 demo_world) empty_state) =
      drop (length ?eps - 10) ?eps"
    unfolding f by metis
  then have 3: "podcast_episodes (runs demo_config (replicate 11 demo_world) empty_state) =
       replicate 10 (run_episode demo_config demo_world)"
    by simp
  from 1 2 3 show ?thesis using l n unfolding recs_def by simp
qed

end
